theory Spec2Isabelle
  imports Complex_Main "HOL-Library.Word" "HOL-Library.Sublist" "HOL-Library.AList"
    "HOL-Library.Log_Nat"
begin

unbundle bit_operations_syntax

section \<open>The DNS cache manager (dns/cache-manager.py)\<close>

text \<open>
  A shallow embedding of \<^verbatim>\<open>DNSCacheManager\<close> and \<^verbatim>\<open>CacheEntry\<close>.
  Conventions of the model:
  \<^item> a Python \<^verbatim>\<open>str\<close> is the list of its Unicode code points (\<open>pystr\<close>); a lone
    surrogate (U+D800 to U+DFFF) is a legal element of a \<^verbatim>\<open>str\<close>;
  \<^item> \<^verbatim>\<open>bytes\<close> are lists of 8-bit words;
  \<^item> a naive \<^verbatim>\<open>datetime\<close> is the number of microseconds since
    0001-01-01T00:00:00 (\<^verbatim>\<open>datetime.min\<close>), an \<open>int\<close>; datetime arithmetic raises
    \<^verbatim>\<open>OverflowError\<close> outside \<^verbatim>\<open>datetime.min .. datetime.max\<close>;
  \<^item> \<^verbatim>\<open>datetime.now()\<close> is a parameter \<open>now\<close> of every operation: the clock reads
    of one call are taken at one instant;
  \<^item> a Python \<^verbatim>\<open>dict\<close> is an association list in insertion order with distinct
    keys (assigning to a key that is present keeps its position, a new key goes last);
  \<^item> an exception is a value of type \<open>exn\<close>.
\<close>

subsection \<open>Strings, bytes and exceptions\<close>

type_synonym pystr = "int list"
type_synonym byte = "8 word"

datatype exn = UnicodeEncodeError | OverflowError | IndexError | ZeroDivisionError

text \<open>String literals of the source, as code-point lists.\<close>

definition str :: "string \<Rightarrow> pystr" where
  "str s = map of_char s"

text \<open>
  \<^verbatim>\<open>str.lower()\<close> and \<^verbatim>\<open>str.upper()\<close>. The case mapping of the ASCII letters is
  written out; every other code point is left as it is (exact for digits, punctuation, the
  surrogates and all caseless code points; the Unicode case tables of cased non-ASCII letters
  are not part of the model).
\<close>

definition lower_cp :: "int \<Rightarrow> int" where
  "lower_cp c = (if 65 \<le> c \<and> c \<le> 90 then c + 32 else c)"

definition upper_cp :: "int \<Rightarrow> int" where
  "upper_cp c = (if 97 \<le> c \<and> c \<le> 122 then c - 32 else c)"

definition lower :: "pystr \<Rightarrow> pystr" where
  "lower s = map lower_cp s"

definition upper :: "pystr \<Rightarrow> pystr" where
  "upper s = map upper_cp s"

text \<open>\<^verbatim>\<open>sep.join(parts)\<close>.\<close>

fun join :: "pystr \<Rightarrow> pystr list \<Rightarrow> pystr" where
  "join sep [] = []"
| "join sep [p] = p"
| "join sep (p # q # ps) = p @ sep @ join sep (q # ps)"

text \<open>
  \<^verbatim>\<open>str.encode()\<close>: strict UTF-8. A surrogate code point cannot be encoded and raises
  \<^verbatim>\<open>UnicodeEncodeError\<close>.
\<close>

definition encode_cp :: "int \<Rightarrow> exn + byte list" where
  "encode_cp c =
     (if c < 0x80 then Inr [of_int c]
      else if c < 0x800 then Inr [of_int (0xC0 + c div 64), of_int (0x80 + c mod 64)]
      else if 0xD800 \<le> c \<and> c \<le> 0xDFFF then Inl UnicodeEncodeError
      else if c < 0x10000 then
        Inr [of_int (0xE0 + c div 4096), of_int (0x80 + c div 64 mod 64), of_int (0x80 + c mod 64)]
      else
        Inr [of_int (0xF0 + c div 262144), of_int (0x80 + c div 4096 mod 64),
             of_int (0x80 + c div 64 mod 64), of_int (0x80 + c mod 64)])"

fun encode :: "pystr \<Rightarrow> exn + byte list" where
  "encode [] = Inr []"
| "encode (c # cs) =
     (case encode_cp c of
        Inl e \<Rightarrow> Inl e
      | Inr bs \<Rightarrow> (case encode cs of Inl e \<Rightarrow> Inl e | Inr rest \<Rightarrow> Inr (bs @ rest)))"

text \<open>\<^verbatim>\<open>a in b\<close> on strings: \<open>a\<close> occurs in \<open>b\<close> as a contiguous substring.\<close>

definition str_in :: "pystr \<Rightarrow> pystr \<Rightarrow> bool" where
  "str_in a b = sublist a b"

subsection \<open>\<^verbatim>\<open>hashlib.md5(...).hexdigest()\<close>\<close>

text \<open>
  The MD5 message digest (RFC 1321), which \<^verbatim>\<open>hashlib.md5\<close> computes: padding to a
  multiple of 64 bytes, 64 steps per block on four 32-bit words, little-endian output.
\<close>

type_synonym u32 = "32 word"

definition md5_K :: "u32 list" where
  "md5_K =
    [0xd76aa478, 0xe8c7b756, 0x242070db, 0xc1bdceee,
     0xf57c0faf, 0x4787c62a, 0xa8304613, 0xfd469501,
     0x698098d8, 0x8b44f7af, 0xffff5bb1, 0x895cd7be,
     0x6b901122, 0xfd987193, 0xa679438e, 0x49b40821,
     0xf61e2562, 0xc040b340, 0x265e5a51, 0xe9b6c7aa,
     0xd62f105d, 0x02441453, 0xd8a1e681, 0xe7d3fbc8,
     0x21e1cde6, 0xc33707d6, 0xf4d50d87, 0x455a14ed,
     0xa9e3e905, 0xfcefa3f8, 0x676f02d9, 0x8d2a4c8a,
     0xfffa3942, 0x8771f681, 0x6d9d6122, 0xfde5380c,
     0xa4beea44, 0x4bdecfa9, 0xf6bb4b60, 0xbebfbc70,
     0x289b7ec6, 0xeaa127fa, 0xd4ef3085, 0x04881d05,
     0xd9d4d039, 0xe6db99e5, 0x1fa27cf8, 0xc4ac5665,
     0xf4292244, 0x432aff97, 0xab9423a7, 0xfc93a039,
     0x655b59c3, 0x8f0ccc92, 0xffeff47d, 0x85845dd1,
     0x6fa87e4f, 0xfe2ce6e0, 0xa3014314, 0x4e0811a1,
     0xf7537e82, 0xbd3af235, 0x2ad7d2bb, 0xeb86d391]"

definition md5_s :: "nat list" where
  "md5_s =
    [7, 12, 17, 22, 7, 12, 17, 22, 7, 12, 17, 22, 7, 12, 17, 22,
     5, 9, 14, 20, 5, 9, 14, 20, 5, 9, 14, 20, 5, 9, 14, 20,
     4, 11, 16, 23, 4, 11, 16, 23, 4, 11, 16, 23, 4, 11, 16, 23,
     6, 10, 15, 21, 6, 10, 15, 21, 6, 10, 15, 21, 6, 10, 15, 21]"

definition md5_f :: "nat \<Rightarrow> u32 \<Rightarrow> u32 \<Rightarrow> u32 \<Rightarrow> u32" where
  "md5_f i b c d =
     (if i < 16 then (b AND c) OR (NOT b AND d)
      else if i < 32 then (d AND b) OR (NOT d AND c)
      else if i < 48 then b XOR c XOR d
      else c XOR (b OR NOT d))"

definition md5_g :: "nat \<Rightarrow> nat" where
  "md5_g i =
     (if i < 16 then i
      else if i < 32 then (5 * i + 1) mod 16
      else if i < 48 then (3 * i + 5) mod 16
      else (7 * i) mod 16)"

definition md5_step :: "u32 list \<Rightarrow> u32 \<times> u32 \<times> u32 \<times> u32 \<Rightarrow> nat \<Rightarrow> u32 \<times> u32 \<times> u32 \<times> u32" where
  "md5_step m st i =
     (case st of (a, b, c, d) \<Rightarrow>
        (d, b + word_rotl (md5_s ! i) (md5_f i b c d + a + md5_K ! i + m ! md5_g i), b, c))"

definition le_word :: "byte list \<Rightarrow> u32" where
  "le_word bs = foldr (\<lambda>b w. ucast b OR push_bit 8 w) bs 0"

fun md5_words :: "nat \<Rightarrow> byte list \<Rightarrow> u32 list" where
  "md5_words 0 bs = []"
| "md5_words (Suc n) bs = le_word (take 4 bs) # md5_words n (drop 4 bs)"

definition md5_block :: "u32 \<times> u32 \<times> u32 \<times> u32 \<Rightarrow> byte list \<Rightarrow> u32 \<times> u32 \<times> u32 \<times> u32" where
  "md5_block st blk =
     (case st of (a0, b0, c0, d0) \<Rightarrow>
        (case foldl (md5_step (md5_words 16 blk)) st [0..<64] of
           (a, b, c, d) \<Rightarrow> (a0 + a, b0 + b, c0 + c, d0 + d)))"

fun md5_blocks :: "nat \<Rightarrow> u32 \<times> u32 \<times> u32 \<times> u32 \<Rightarrow> byte list \<Rightarrow> u32 \<times> u32 \<times> u32 \<times> u32" where
  "md5_blocks 0 st bs = st"
| "md5_blocks (Suc n) st bs = md5_blocks n (md5_block st (take 64 bs)) (drop 64 bs)"

definition le_bytes :: "nat \<Rightarrow> 'a::len word \<Rightarrow> byte list" where
  "le_bytes n w = map (\<lambda>i. ucast (drop_bit (8 * i) w)) [0..<n]"

definition md5_pad :: "byte list \<Rightarrow> byte list" where
  "md5_pad msg =
     msg @ [0x80] @ replicate ((119 - length msg mod 64) mod 64) 0
       @ le_bytes 8 (of_nat (8 * length msg) :: 64 word)"

definition md5 :: "byte list \<Rightarrow> byte list" where
  "md5 msg =
     (let p = md5_pad msg in
      case md5_blocks (length p div 64) (0x67452301, 0xefcdab89, 0x98badcfe, 0x10325476) p of
        (a, b, c, d) \<Rightarrow> concat (map (le_bytes 4) [a, b, c, d]))"

definition hex_digit :: "int \<Rightarrow> int" where
  "hex_digit n = (if n < 10 then 48 + n else 87 + n)"

definition hexdigest :: "byte list \<Rightarrow> pystr" where
  "hexdigest bs = concat (map (\<lambda>b. [hex_digit (uint b div 16), hex_digit (uint b mod 16)]) bs)"

subsection \<open>Cache keys\<close>

text \<open>
  \<^verbatim>\<open>_generate_cache_key\<close>: \<^verbatim>\<open>if nameserver:\<close> is false for \<^verbatim>\<open>None\<close> and for the
  empty string.
\<close>

definition generate_cache_key :: "pystr \<Rightarrow> pystr \<Rightarrow> pystr option \<Rightarrow> exn + pystr" where
  "generate_cache_key domain record_type nameserver =
     (let key_parts = [lower domain, upper record_type]
                      @ (case nameserver of None \<Rightarrow> [] | Some n \<Rightarrow> if n \<noteq> [] then [n] else []);
          key_string = join (str '':'') key_parts
      in case encode key_string of
           Inl e \<Rightarrow> Inl e
         | Inr bs \<Rightarrow> Inr (hexdigest (md5 bs)))"

subsection \<open>Timestamps\<close>

type_synonym datetime = int

text \<open>\<^verbatim>\<open>datetime.max\<close> = 9999-12-31T23:59:59.999999, in microseconds since \<^verbatim>\<open>datetime.min\<close>.\<close>

definition datetime_max :: datetime where
  "datetime_max = 315537897599999999"

text \<open>
  \<^verbatim>\<open>t + timedelta(seconds=n)\<close> for an \<^verbatim>\<open>int\<close> \<open>n\<close>; subtraction is the addition of
  \<open>- n\<close>. \<^verbatim>\<open>OverflowError\<close> when the result (or the timedelta itself, whose range is
  wider) is out of range.
\<close>

definition dt_add_seconds :: "datetime \<Rightarrow> int \<Rightarrow> exn + datetime" where
  "dt_add_seconds t n =
     (let r = t + n * 1000000
      in if 0 \<le> r \<and> r \<le> datetime_max then Inr r else Inl OverflowError)"

subsection \<open>Double-precision arithmetic\<close>

text \<open>
  A finite \<^verbatim>\<open>float\<close> is the rational it denotes. Every operation returns the exact result
  rounded to the nearest number with a 53-bit significand, ties to even (IEEE 754 binary64).
  The exponent range is not bounded in the model: it is exact for results of magnitude in
  \<open>2\<^sup>-\<^sup>1\<^sup>0\<^sup>2\<^sup>2 .. 2\<^sup>1\<^sup>0\<^sup>2\<^sup>4\<close>.
\<close>

function bitlen :: "int \<Rightarrow> int" where
  "bitlen p = (if p \<le> 0 then 0 else 1 + bitlen (p div 2))"
  by pat_completeness auto
termination
  by (relation "measure nat") auto

declare bitlen.simps [simp del]

definition pow2 :: "int \<Rightarrow> rat" where
  "pow2 e = (if 0 \<le> e then 2 ^ nat e else 1 / 2 ^ nat (- e))"

text \<open>The exponent \<open>e\<close> of \<open>x \<noteq> 0\<close>: \<open>2\<^sup>e \<le> |x| < 2\<^sup>e\<^sup>+\<^sup>1\<close>.\<close>

definition float_exponent :: "rat \<Rightarrow> int" where
  "float_exponent x =
     (case quotient_of \<bar>x\<bar> of (p, q) \<Rightarrow>
        let d = bitlen p - bitlen q
        in if pow2 d \<le> \<bar>x\<bar> then d else d - 1)"

definition round_half_even :: "rat \<Rightarrow> int" where
  "round_half_even x =
     (let f = \<lfloor>x\<rfloor>; r = x - of_int f
      in if r < 1 / 2 then f
         else if 1 / 2 < r then f + 1
         else if even f then f else f + 1)"

definition round_double :: "rat \<Rightarrow> rat" where
  "round_double x =
     (if x = 0 then 0
      else let u = pow2 (float_exponent x - 52)
           in of_int (round_half_even (x / u)) * u)"

text \<open>\<^verbatim>\<open>float(n)\<close> of an \<^verbatim>\<open>int\<close>, \<^verbatim>\<open>x * y\<close>, \<^verbatim>\<open>x / y\<close> and \<^verbatim>\<open>int(x)\<close>.\<close>

definition float_of_int :: "int \<Rightarrow> rat" where
  "float_of_int n = round_double (of_int n)"

definition float_mul :: "rat \<Rightarrow> rat \<Rightarrow> rat" where
  "float_mul x y = round_double (x * y)"


definition int_of_float :: "rat \<Rightarrow> int" where
  "int_of_float x = (if 0 \<le> x then \<lfloor>x\<rfloor> else \<lceil>x\<rceil>)"

text \<open>The literal \<^verbatim>\<open>0.9\<close>: the double \<open>0x1.ccccccccccccdp-1\<close>.\<close>

definition float_0_9 :: rat where
  "float_0_9 = 8106479329266893 / 9007199254740992"

subsection \<open>Cache entries\<close>

text \<open>
  The cached payload (\<^verbatim>\<open>value: Any\<close>). The code looks into it only in
  \<^verbatim>\<open>invalidate_domain\<close>, through \<^verbatim>\<open>isinstance(value, (str, list))\<close> and
  \<^verbatim>\<open>str(value)\<close>: a \<^verbatim>\<open>str\<close> payload is \<open>StrV\<close>; \<open>OtherV\<close> stands for a payload that is
  neither a \<^verbatim>\<open>str\<close> nor a \<^verbatim>\<open>list\<close>. List payloads are outside the model.
\<close>

datatype pyvalue = StrV pystr | OtherV nat

record cache_entry =
  key :: pystr
  entry_value :: pyvalue
  created_at :: datetime
  expires_at :: datetime
  access_count :: int
  last_accessed :: "datetime option"
  ttl :: int

definition is_expired :: "cache_entry \<Rightarrow> datetime \<Rightarrow> bool" where
  "is_expired e now = (now > expires_at e)"

definition is_stale :: "cache_entry \<Rightarrow> int \<Rightarrow> datetime \<Rightarrow> exn + bool" where
  "is_stale e stale_threshold now =
     (case dt_add_seconds (expires_at e) (- stale_threshold) of
        Inl x \<Rightarrow> Inl x
      | Inr stale_time \<Rightarrow> Inr (now > stale_time))"

subsection \<open>Configuration and manager state\<close>

datatype backend = Memory | Redis | Hybrid

record config =
  backend :: backend
  ttl_default :: int
  ttl_min :: int
  ttl_max :: int
  max_entries :: int
  cleanup_interval :: int
  prefetch_threshold :: int
  auto_ttl_adjustment :: bool
  ttl_adjustment_factor :: rat
  min_access_for_adjustment :: int

text \<open>\<^verbatim>\<open>_get_default_config\<close>; \<^verbatim>\<open>1.2\<close> is the double \<open>0x1.3333333333333p+0\<close>.\<close>

definition get_default_config :: config where
  "get_default_config =
     \<lparr> backend = Memory, ttl_default = 300, ttl_min = 60, ttl_max = 86400,
       max_entries = 10000, cleanup_interval = 300, prefetch_threshold = 60,
       auto_ttl_adjustment = True,
       ttl_adjustment_factor = 5404319552844595 / 4503599627370496,
       min_access_for_adjustment = 10 \<rparr>"

text \<open>
  The manager object. \<open>redis_client\<close> tells whether \<^verbatim>\<open>self.redis_client\<close> is set;
  \<open>hits\<close> to \<open>evictions\<close> are \<^verbatim>\<open>self.cache_stats\<close>; \<open>created_tasks\<close> lists the
  arguments of the \<^verbatim>\<open>_prefetch_record\<close> tasks created with \<^verbatim>\<open>asyncio.create_task\<close>
  that the event loop has not run yet, oldest first.
\<close>

record manager =
  config :: config
  cache_backend :: backend
  memory_cache :: "(pystr \<times> cache_entry) list"
  redis_client :: bool
  hits :: int
  misses :: int
  sets :: int
  deletes :: int
  evictions :: int
  created_tasks :: "(pystr \<times> pystr \<times> pystr option) list"

text \<open>\<^verbatim>\<open>__init__\<close>, before \<^verbatim>\<open>_initialize_backend\<close> has run.\<close>

definition init :: "config \<Rightarrow> manager" where
  "init cfg =
     \<lparr> config = cfg, cache_backend = backend cfg, memory_cache = [], redis_client = False,
       hits = 0, misses = 0, sets = 0, deletes = 0, evictions = 0, created_tasks = [] \<rparr>"

definition remote_enabled :: "manager \<Rightarrow> bool" where
  "remote_enabled m = (redis_client m \<and> (cache_backend m = Redis \<or> cache_backend m = Hybrid))"

subsection \<open>Replies of the Redis server\<close>

text \<open>
  The Redis server is outside the model: what it answers is an input of each operation.
  Every call can raise; each such exception is caught where the call is made.
\<close>

datatype 'a reply = Raises | Returns 'a

text \<open>
  What \<^verbatim>\<open>get\<close> obtains from \<^verbatim>\<open>redis_client.get(cache_key)\<close>: \<open>RedisRaises\<close> when the
  call, \<^verbatim>\<open>pickle.loads\<close>, \<^verbatim>\<open>CacheEntry(**entry_data)\<close> or \<^verbatim>\<open>is_expired\<close> raises
  (as it does on the output of \<^verbatim>\<open>to_dict\<close>, whose dates are ISO strings);
  \<open>RedisMissing\<close> for a falsy reply; \<open>RedisEntry\<close> for data that unpickles to an entry
  with \<^verbatim>\<open>datetime\<close> fields.
\<close>

datatype redis_get_reply = RedisRaises | RedisMissing | RedisEntry cache_entry

text \<open>
  What \<^verbatim>\<open>invalidate_domain\<close> obtains for one key of \<^verbatim>\<open>redis_client.keys('*')\<close>:
  an exception (skipped), a falsy reply, or the decoded key with the payload of the
  unpickled dict.
\<close>

datatype redis_scan_item = ScanRaises | ScanMissing | ScanData pystr pyvalue

subsection \<open>Operations\<close>



definition count_miss :: "manager \<Rightarrow> manager" where
  "count_miss m = m\<lparr>misses := misses m + 1\<rparr>"

text \<open>
  \<^verbatim>\<open>get\<close>. The key is generated before the \<^verbatim>\<open>try\<close>: its exception propagates
  (\<open>Inl\<close>). Inside the \<^verbatim>\<open>try\<close>, an exception of \<^verbatim>\<open>is_stale\<close> is caught by the outer
  handler, after the access statistics and the hit counter have been updated.
\<close>

definition get :: "manager \<Rightarrow> datetime \<Rightarrow> redis_get_reply \<Rightarrow> pystr \<Rightarrow> pystr \<Rightarrow> pystr option
    \<Rightarrow> exn + (pyvalue option \<times> manager)" where
  "get m now redis_reply domain record_type nameserver =
     (case generate_cache_key domain record_type nameserver of
        Inl x \<Rightarrow> Inl x
      | Inr cache_key \<Rightarrow> Inr
         (case map_of (memory_cache m) cache_key of
            Some entry \<Rightarrow>
              if is_expired entry now then
                (None, count_miss (m\<lparr>memory_cache := AList.delete cache_key (memory_cache m)\<rparr>))
              else
                let entry' = entry\<lparr>access_count := access_count entry + 1,
                                    last_accessed := Some now\<rparr>;
                    m' = m\<lparr>memory_cache := AList.update cache_key entry' (memory_cache m),
                           hits := hits m + 1\<rparr>
                in (case is_stale entry' (prefetch_threshold (config m)) now of
                      Inl x \<Rightarrow> (None, count_miss m')
                    | Inr stale \<Rightarrow>
                        (Some (entry_value entry'),
                         if stale
                         then m'\<lparr>created_tasks :=
                                   created_tasks m' @ [(domain, record_type, nameserver)]\<rparr>
                         else m'))
          | None \<Rightarrow>
              if remote_enabled m then
                (case redis_reply of
                   RedisEntry entry \<Rightarrow>
                     if \<not> is_expired entry now then
                       let entry' = entry\<lparr>access_count := access_count entry + 1,
                                           last_accessed := Some now\<rparr>;
                           m' = (if cache_backend m = Hybrid
                                 then m\<lparr>memory_cache :=
                                          AList.update cache_key entry' (memory_cache m)\<rparr>
                                 else m)
                       in (Some (entry_value entry'), m'\<lparr>hits := hits m' + 1\<rparr>)
                     else (None, count_miss m)
                 | _ \<Rightarrow> (None, count_miss m))
              else (None, count_miss m)))"

text \<open>
  \<^verbatim>\<open>_evict_lru_entries\<close>. \<^verbatim>\<open>sorted\<close> is stable, as \<open>sort_key\<close> is; a \<^verbatim>\<open>datetime\<close> is
  always truthy, so \<^verbatim>\<open>last_accessed or created_at\<close> falls back only on \<^verbatim>\<open>None\<close>.
  The loop indexes \<^verbatim>\<open>sorted_entries[i]\<close> and raises \<^verbatim>\<open>IndexError\<close> past its end; the
  deletions made before remain.
\<close>

definition target_size :: "config \<Rightarrow> int" where
  "target_size cfg = int_of_float (float_mul (float_of_int (max_entries cfg)) float_0_9)"

definition lru_time :: "pystr \<times> cache_entry \<Rightarrow> datetime" where
  "lru_time x = (case last_accessed (snd x) of Some t \<Rightarrow> t | None \<Rightarrow> created_at (snd x))"

fun evict_loop :: "nat \<Rightarrow> (pystr \<times> cache_entry) list \<Rightarrow> manager \<Rightarrow> exn option \<times> manager" where
  "evict_loop 0 sorted_entries m = (None, m)"
| "evict_loop (Suc n) [] m = (Some IndexError, m)"
| "evict_loop (Suc n) (x # rest) m =
     evict_loop n rest (m\<lparr>memory_cache := AList.delete (fst x) (memory_cache m),
                          evictions := evictions m + 1\<rparr>)"

definition evict_lru_entries :: "manager \<Rightarrow> exn option \<times> manager" where
  "evict_lru_entries m =
     (let sorted_entries = sort_key lru_time (memory_cache m);
          entries_to_remove = int (length sorted_entries) - target_size (config m)
      in evict_loop (nat entries_to_remove) sorted_entries m)"

text \<open>
  \<^verbatim>\<open>set\<close>. The write-through to Redis comes after the eviction; its exception is caught on
  the spot, and neither its success nor its failure changes the result or the local state.
\<close>

definition clamp_ttl :: "config \<Rightarrow> int option \<Rightarrow> int" where
  "clamp_ttl cfg ttl_arg =
     (let t = (case ttl_arg of None \<Rightarrow> ttl_default cfg | Some t \<Rightarrow> t)
      in max (ttl_min cfg) (min t (ttl_max cfg)))"

text \<open>The \<^verbatim>\<open>CacheEntry(...)\<close> that \<^verbatim>\<open>set\<close> builds.\<close>

definition new_entry :: "pystr \<Rightarrow> pyvalue \<Rightarrow> datetime \<Rightarrow> datetime \<Rightarrow> int \<Rightarrow> cache_entry" where
  "new_entry cache_key v now expires t =
     \<lparr> key = cache_key, entry_value = v, created_at = now, expires_at = expires,
       access_count = 0, last_accessed = Some now, ttl = t \<rparr>"

definition set_record :: "manager \<Rightarrow> datetime \<Rightarrow> pystr \<Rightarrow> pystr \<Rightarrow> pyvalue \<Rightarrow> int option
    \<Rightarrow> pystr option \<Rightarrow> exn + (bool \<times> manager)" where
  "set_record m now domain record_type v ttl_arg nameserver =
     (case generate_cache_key domain record_type nameserver of
        Inl x \<Rightarrow> Inl x
      | Inr cache_key \<Rightarrow> Inr
         (let t = clamp_ttl (config m) ttl_arg
          in case dt_add_seconds now t of
               Inl x \<Rightarrow> (False, m)
             | Inr expires \<Rightarrow>
                 let entry = new_entry cache_key v now expires t;
                     m1 = m\<lparr>memory_cache := AList.update cache_key entry (memory_cache m)\<rparr>
                 in (case (if int (length (memory_cache m1)) > max_entries (config m1)
                           then evict_lru_entries m1 else (None, m1)) of
                       (Some x, m2) \<Rightarrow> (False, m2)
                     | (None, m2) \<Rightarrow> (True, m2\<lparr>sets := sets m2 + 1\<rparr>))))"

text \<open>\<^verbatim>\<open>delete\<close>; \<open>redis_reply\<close> is the outcome of \<^verbatim>\<open>redis_client.delete(cache_key)\<close>.\<close>

definition delete_record :: "manager \<Rightarrow> int reply \<Rightarrow> pystr \<Rightarrow> pystr \<Rightarrow> pystr option
    \<Rightarrow> exn + (bool \<times> manager)" where
  "delete_record m redis_reply domain record_type nameserver =
     (case generate_cache_key domain record_type nameserver of
        Inl x \<Rightarrow> Inl x
      | Inr cache_key \<Rightarrow> Inr
         (let in_memory = (map_of (memory_cache m) cache_key \<noteq> None);
              m1 = (if in_memory
                    then m\<lparr>memory_cache := AList.delete cache_key (memory_cache m)\<rparr> else m);
              deleted = (in_memory \<or>
                         (remote_enabled m \<and>
                          (case redis_reply of Raises \<Rightarrow> False | Returns n \<Rightarrow> n \<noteq> 0)))
          in (deleted, if deleted then m1\<lparr>deletes := deletes m1 + 1\<rparr> else m1)))"

text \<open>
  \<^verbatim>\<open>invalidate_domain\<close>. An entry is selected when the lower-cased domain occurs in its
  (hashed) dict key, or in \<^verbatim>\<open>str(value)\<close> for a \<^verbatim>\<open>str\<close> payload. \<open>redis_scan\<close> is the
  outcome of \<^verbatim>\<open>keys('*')\<close> with the item read for each key and the outcome of the final
  \<^verbatim>\<open>delete(*keys_to_delete)\<close>, which is called only for a non-empty selection.
\<close>

definition value_matches :: "pystr \<Rightarrow> pyvalue \<Rightarrow> bool" where
  "value_matches domain_lower v =
     (case v of StrV s \<Rightarrow> str_in domain_lower s | OtherV _ \<Rightarrow> False)"

definition entry_matches :: "pystr \<Rightarrow> pystr \<times> cache_entry \<Rightarrow> bool" where
  "entry_matches domain_lower x =
     (str_in domain_lower (fst x) \<or> value_matches domain_lower (entry_value (snd x)))"

definition scan_matches :: "pystr \<Rightarrow> redis_scan_item \<Rightarrow> bool" where
  "scan_matches domain_lower item =
     (case item of
        ScanData k v \<Rightarrow> str_in domain_lower k \<or> value_matches domain_lower v
      | _ \<Rightarrow> False)"

definition invalidate_domain :: "manager \<Rightarrow> (redis_scan_item list \<times> int reply) reply \<Rightarrow> pystr
    \<Rightarrow> int \<times> manager" where
  "invalidate_domain m redis_scan domain =
     (let domain_lower = lower domain;
          keys_to_delete = map fst (filter (entry_matches domain_lower) (memory_cache m));
          m1 = m\<lparr>memory_cache := foldl (\<lambda>mc k. AList.delete k mc) (memory_cache m) keys_to_delete\<rparr>;
          deleted_count = int (length keys_to_delete);
          redis_deleted =
            (if remote_enabled m then
               (case redis_scan of
                  Raises \<Rightarrow> 0
                | Returns (items, delete_reply) \<Rightarrow>
                    if filter (scan_matches domain_lower) items \<noteq> [] then
                      (case delete_reply of Raises \<Rightarrow> 0 | Returns n \<Rightarrow> n)
                    else 0)
             else 0)
      in (deleted_count + redis_deleted, m1))"





section \<open>Sequences of operations, and the predicates of the properties\<close>


text \<open>
  A caller that awaits \<^verbatim>\<open>get\<close> \<open>n\<close> times in a row for the same record. The path of
  a memory hit has no \<^verbatim>\<open>await\<close>, so the event loop runs no created task in between.
\<close>

fun get_repeatedly :: "nat \<Rightarrow> manager \<Rightarrow> datetime \<Rightarrow> redis_get_reply \<Rightarrow> pystr \<Rightarrow> pystr
    \<Rightarrow> pystr option \<Rightarrow> manager" where
  "get_repeatedly 0 m now redis_reply domain record_type nameserver = m"
| "get_repeatedly (Suc n) m now redis_reply domain record_type nameserver =
     (case get m now redis_reply domain record_type nameserver of
        Inl x \<Rightarrow> m
      | Inr (v, m') \<Rightarrow> get_repeatedly n m' now redis_reply domain record_type nameserver)"




text \<open>
  The two invariants of an entry: the TTL within the configured bounds, and
  \<open>expires_at = created_at + ttl\<close> (seconds, in microseconds). \<open>promotes_ok\<close>: an entry
  that the operation receives from the Redis server satisfies them.
\<close>

definition entry_ok :: "config \<Rightarrow> cache_entry \<Rightarrow> bool" where
  "entry_ok cfg e \<longleftrightarrow>
     ttl_min cfg \<le> ttl e \<and> ttl e \<le> ttl_max cfg \<and> expires_at e = created_at e + ttl e * 1000000"



section \<open>Example data\<close>

text \<open>
  The keys of three records (MD5 digests, evaluated in the logic below), an instant in 2026
  and the entries \<^verbatim>\<open>set\<close> builds at that instant.
\<close>

definition example_key_A :: pystr where
  "example_key_A = str ''bc6fa0606cd95fb7d9bbfc62bf165834''"

definition example_key_MX :: pystr where
  "example_key_MX = str ''c447b89858f005cef27f2d368fe902cf''"

definition example_key_TXT :: pystr where
  "example_key_TXT = str ''f9551f23b2b6528c580fc5d3ad72f275''"

definition example_now :: datetime where
  "example_now = 63900000000000000"

definition example_entry_A :: cache_entry where
  "example_entry_A =
     new_entry example_key_A (StrV (str ''1.2.3.4'')) example_now (example_now + 120000000) 120"

definition example_entry_MX :: cache_entry where
  "example_entry_MX =
     new_entry example_key_MX (StrV (str ''10 mx.mailhost.net'')) example_now
       (example_now + 300000000) 300"

definition example_entry_TXT :: cache_entry where
  "example_entry_TXT =
     new_entry example_key_TXT (StrV (str ''v=spf1 -all'')) example_now
       (example_now + 300000000) 300"

text \<open>The manager with the default configuration after one and after three calls of \<^verbatim>\<open>set\<close>.\<close>

definition example_manager_A :: manager where
  "example_manager_A =
     (init get_default_config)\<lparr>memory_cache := [(example_key_A, example_entry_A)], sets := 1\<rparr>"

definition example_manager :: manager where
  "example_manager =
     (init get_default_config)
       \<lparr>memory_cache := [(example_key_A, example_entry_A), (example_key_MX, example_entry_MX),
                         (example_key_TXT, example_entry_TXT)],
        sets := 3\<rparr>"












section \<open>Properties\<close>

subsection \<open>The example data\<close>

lemma key_example_A:
  "generate_cache_key (str ''example.com'') (str ''A'') None = Inr example_key_A"
  by code_simp

lemma key_surrogate: "generate_cache_key [0xDC80] (str ''A'') None = Inl UnicodeEncodeError"
  by (simp add: generate_cache_key_def lower_def upper_def lower_cp_def upper_cp_def str_def
      encode_cp_def)

lemma key_example_MX:
  "generate_cache_key (str ''example.com'') (str ''MX'') None = Inr example_key_MX"
  by code_simp

lemma key_other_TXT:
  "generate_cache_key (str ''other.com'') (str ''TXT'') None = Inr example_key_TXT"
  by code_simp

lemma example_keys_distinct:
  "example_key_A \<noteq> example_key_MX" "example_key_A \<noteq> example_key_TXT"
  "example_key_MX \<noteq> example_key_TXT"
  by (simp_all add: example_key_A_def example_key_MX_def example_key_TXT_def str_def)

lemma example_dt:
  "dt_add_seconds example_now 120 = Inr (example_now + 120000000)"
  "dt_add_seconds example_now 300 = Inr (example_now + 300000000)"
  by (simp_all add: dt_add_seconds_def example_now_def datetime_max_def)


lemma example_manager_built:
  "(case set_record example_manager_A example_now (str ''example.com'') (str ''MX'')
           (StrV (str ''10 mx.mailhost.net'')) None None of
      Inr (True, m2) \<Rightarrow>
        set_record m2 example_now (str ''other.com'') (str ''TXT'')
          (StrV (str ''v=spf1 -all'')) None None = Inr (True, example_manager)
    | _ \<Rightarrow> False)"
  by (simp add: set_record_def key_example_MX key_other_TXT clamp_ttl_def
      init_def get_default_config_def example_dt Let_def example_manager_def
      example_manager_A_def example_entry_MX_def example_entry_TXT_def example_keys_distinct)

subsection \<open>Case normalisation of keys\<close>




subsection \<open>Exceptions of the cache-path operations\<close>

text \<open>
  C2. The claim: \<^verbatim>\<open>get\<close>, \<^verbatim>\<open>set\<close>, \<^verbatim>\<open>delete\<close> and \<^verbatim>\<open>invalidate_domain\<close> never
  propagate an exception, for any domain, record type and name server. In the code the key
  is generated before the \<^verbatim>\<open>try\<close> of \<^verbatim>\<open>get\<close>, \<^verbatim>\<open>set\<close> and \<^verbatim>\<open>delete\<close> (in
  \<^verbatim>\<open>optimize_ttl\<close> it is generated inside): for the domain \<^verbatim>\<open>'\udc80'\<close>, a \<^verbatim>\<open>str\<close>
  holding a lone surrogate, \<^verbatim>\<open>encode()\<close> raises \<^verbatim>\<open>UnicodeEncodeError\<close>, which reaches
  the caller from any state, at any time and for any reply of the remote store.
\<close>

theorem key_generation_raises:
  "get m now redis_reply [0xDC80] (str ''A'') None = Inl UnicodeEncodeError \<and>
   set_record m now [0xDC80] (str ''A'') v ttl_arg None = Inl UnicodeEncodeError \<and>
   delete_record m delete_reply [0xDC80] (str ''A'') None = Inl UnicodeEncodeError"
  by (simp add: get_def set_record_def delete_record_def key_surrogate)

subsection \<open>Staleness and expiry\<close>

text \<open>
  C3, as amended. For a non-negative stale threshold, whenever \<^verbatim>\<open>is_stale\<close> returns, an
  expired entry is stale as well (\<^verbatim>\<open>is_stale\<close> is \<open>now > expires_at - threshold\<close> and
  nothing more), and the entry is stale and not expired exactly in the window
  \<open>expires_at - threshold < now \<le> expires_at\<close>.
\<close>

theorem stale_includes_expired:
  assumes "0 \<le> stale_threshold" and "is_stale e stale_threshold now = Inr b"
  shows "(is_expired e now \<longrightarrow> b) \<and>
         ((b \<and> \<not> is_expired e now) \<longleftrightarrow>
            (expires_at e - stale_threshold * 1000000 < now \<and> now \<le> expires_at e))"
  using assms
  by (auto simp: is_stale_def is_expired_def dt_add_seconds_def Let_def split: if_splits)

lemma example_stale_late:
  "is_stale example_entry_A 60 (example_now + 200000000) = Inr True"
  by (simp add: is_stale_def dt_add_seconds_def datetime_max_def example_entry_A_def
      new_entry_def example_now_def)

lemma example_expired_late: "is_expired example_entry_A (example_now + 200000000)"
  by (simp add: is_expired_def example_entry_A_def new_entry_def)

theorem stale_includes_expired_witness:
  "(0::int) \<le> 60 \<and>
   is_stale example_entry_A 60 (example_now + 200000000) = Inr True \<and>
   is_expired example_entry_A (example_now + 200000000) \<and>
   \<not> (expires_at example_entry_A - 60 * 1000000 < example_now + 200000000 \<and>
      example_now + 200000000 \<le> expires_at example_entry_A)"
  using stale_includes_expired [of 60 example_entry_A "example_now + 200000000" True]
    example_stale_late example_expired_late
  by simp

text \<open>
  C3, as stated, fails: 200 seconds after its creation the entry with a TTL of 120 seconds
  is expired, and \<^verbatim>\<open>is_stale(60)\<close> is true of it.
\<close>

theorem stale_after_expiry_counterexample:
  "is_stale example_entry_A 60 (example_now + 200000000) = Inr True \<and>
   is_expired example_entry_A (example_now + 200000000)"
  by (simp add: is_stale_def dt_add_seconds_def datetime_max_def is_expired_def
      example_entry_A_def new_entry_def example_now_def)

subsection \<open>Lazy expiry\<close>

text \<open>
  C4. When the in-memory entry of the key has \<open>now > expires_at\<close>, \<^verbatim>\<open>get\<close> returns
  \<^verbatim>\<open>None\<close>, the resulting state is the old one with the entry deleted and the miss counter
  incremented (the hit counter and everything else unchanged), and the key is no longer in
  the store; no sweep of \<^verbatim>\<open>_periodic_cleanup\<close> is involved.
\<close>

theorem get_expired_is_miss:
  assumes "generate_cache_key domain record_type nameserver = Inr k"
      and "map_of (memory_cache m) k = Some e"
      and "now > expires_at e"
  shows "get m now redis_reply domain record_type nameserver
           = Inr (None, m\<lparr>memory_cache := AList.delete k (memory_cache m),
                            misses := misses m + 1\<rparr>) \<and>
         map_of (AList.delete k (memory_cache m)) k = None"
  using assms by (simp add: get_def is_expired_def count_miss_def delete_conv')

theorem get_expired_is_miss_witness:
  "generate_cache_key (str ''example.com'') (str ''A'') None = Inr example_key_A \<and>
   map_of (memory_cache ((init get_default_config)\<lparr>memory_cache := [(example_key_A, example_entry_A)]\<rparr>))
     example_key_A = Some example_entry_A \<and>
   example_now + 200000000 > expires_at example_entry_A \<and>
   get ((init get_default_config)\<lparr>memory_cache := [(example_key_A, example_entry_A)]\<rparr>)
       (example_now + 200000000) RedisMissing (str ''example.com'') (str ''A'') None
     = Inr (None, (init get_default_config)\<lparr>memory_cache := [], misses := 1\<rparr>)"
proof -
  let ?m = "(init get_default_config)\<lparr>memory_cache := [(example_key_A, example_entry_A)]\<rparr>"
  have l: "map_of (memory_cache ?m) example_key_A = Some example_entry_A" by simp
  have x: "example_now + 200000000 > expires_at example_entry_A"
    by (simp add: example_entry_A_def new_entry_def)
  from get_expired_is_miss [OF key_example_A l x, of RedisMissing] key_example_A l x
  show ?thesis by (simp add: init_def)
qed

subsection \<open>Domain invalidation\<close>

text \<open>
  C1. The claim: with entries for \<open>A:example.com\<close>, \<open>MX:example.com\<close> and
  \<open>TXT:other.com\<close>, \<^verbatim>\<open>invalidate_domain("example.com")\<close> removes the two
  \<open>example.com\<close> entries and returns 2. The code looks for the domain inside the MD5 hex
  digest that serves as key and inside the cached value; \<open>example.com\<close> occurs in none of
  the three digests, and here in none of the values: nothing is removed and the count is 0.
\<close>

lemma example_no_match:
  "\<not> entry_matches (lower (str ''example.com'')) (example_key_A, example_entry_A)"
  "\<not> entry_matches (lower (str ''example.com'')) (example_key_MX, example_entry_MX)"
  "\<not> entry_matches (lower (str ''example.com'')) (example_key_TXT, example_entry_TXT)"
  by code_simp+

theorem invalidate_domain_finds_nothing:
  "invalidate_domain example_manager redis_scan (str ''example.com'') = (0, example_manager)"
  by (simp add: invalidate_domain_def example_manager_def example_no_match remote_enabled_def
      init_def)

subsection \<open>Prefetch scheduling\<close>

lemma is_stale_access:
  "is_stale (e\<lparr>access_count := a, last_accessed := l\<rparr>) thr now = is_stale e thr now"
  by (simp add: is_stale_def)

lemma get_stale_hit:
  assumes "generate_cache_key domain record_type nameserver = Inr k"
      and "map_of (memory_cache m) k = Some e"
      and "now \<le> expires_at e"
      and "is_stale e (prefetch_threshold (config m)) now = Inr True"
  shows "get m now redis_reply domain record_type nameserver =
           Inr (Some (entry_value e),
                m\<lparr>memory_cache := AList.update k (e\<lparr>access_count := access_count e + 1,
                                                        last_accessed := Some now\<rparr>) (memory_cache m),
                  hits := hits m + 1,
                  created_tasks := created_tasks m @ [(domain, record_type, nameserver)]\<rparr>)"
  using assms by (simp add: get_def is_expired_def Let_def is_stale_access)

lemma get_repeatedly_tasks:
  assumes "generate_cache_key domain record_type nameserver = Inr k"
      and "map_of (memory_cache m) k = Some e"
      and "now \<le> expires_at e"
      and "is_stale e (prefetch_threshold (config m)) now = Inr True"
  shows "created_tasks (get_repeatedly n m now redis_reply domain record_type nameserver)
           = created_tasks m @ replicate n (domain, record_type, nameserver)"
  using assms(2-4)
proof (induction n arbitrary: m e)
  case 0
  then show ?case by simp
next
  case (Suc n)
  let ?e = "e\<lparr>access_count := access_count e + 1, last_accessed := Some now\<rparr>"
  let ?m = "m\<lparr>memory_cache := AList.update k ?e (memory_cache m), hits := hits m + 1,
               created_tasks := created_tasks m @ [(domain, record_type, nameserver)]\<rparr>"
  have g: "get m now redis_reply domain record_type nameserver = Inr (Some (entry_value e), ?m)"
    using get_stale_hit [OF assms(1) Suc.prems] .
  have "created_tasks (get_repeatedly n ?m now redis_reply domain record_type nameserver)
          = created_tasks ?m @ replicate n (domain, record_type, nameserver)"
    using Suc.prems by (intro Suc.IH [of ?m ?e]) (simp_all add: update_conv' is_stale_access)
  then show ?case using g by (simp add: replicate_append_same)
qed

lemma example_stale_65:
  "is_stale example_entry_A (prefetch_threshold (config example_manager_A))
     (example_now + 65000000) = Inr True"
  "example_now + 65000000 \<le> expires_at example_entry_A"
  "map_of (memory_cache example_manager_A) example_key_A = Some example_entry_A"
  "created_tasks example_manager_A = []"
  by (simp_all add: is_stale_def dt_add_seconds_def datetime_max_def example_entry_A_def
      new_entry_def example_now_def example_manager_A_def init_def get_default_config_def)

text \<open>
  C8, as amended. There is no de-duplication: every \<^verbatim>\<open>get\<close> that finds the entry of the
  key in memory, not expired and stale, creates one more \<^verbatim>\<open>_prefetch_record\<close> task, so
  \<open>n\<close> calls in a row leave \<open>n\<close> more created tasks for that record.
\<close>

theorem get_creates_prefetch_per_call:
  assumes "generate_cache_key domain record_type nameserver = Inr k"
      and "map_of (memory_cache m) k = Some e"
      and "now \<le> expires_at e"
      and "is_stale e (prefetch_threshold (config m)) now = Inr True"
  shows "created_tasks (get_repeatedly n m now redis_reply domain record_type nameserver)
           = created_tasks m @ replicate n (domain, record_type, nameserver)"
  using assms by (rule get_repeatedly_tasks)

theorem get_creates_prefetch_per_call_witness:
  "generate_cache_key (str ''example.com'') (str ''A'') None = Inr example_key_A \<and>
   map_of (memory_cache example_manager_A) example_key_A = Some example_entry_A \<and>
   example_now + 65000000 \<le> expires_at example_entry_A \<and>
   is_stale example_entry_A (prefetch_threshold (config example_manager_A))
     (example_now + 65000000) = Inr True \<and>
   created_tasks (get_repeatedly 3 example_manager_A (example_now + 65000000) RedisMissing
      (str ''example.com'') (str ''A'') None)
     = replicate 3 (str ''example.com'', str ''A'', None)"
  using get_creates_prefetch_per_call [OF key_example_A example_stale_65(3) example_stale_65(2)
      example_stale_65(1), of 3 RedisMissing]
    key_example_A example_stale_65
  by simp

text \<open>
  C8, as stated, fails: with \<^verbatim>\<open>prefetch_threshold\<close> 60 and a TTL of 120 seconds, five
  calls of \<^verbatim>\<open>get\<close> at the age of 65 seconds create five prefetch tasks, not one.
\<close>

theorem five_gets_five_prefetches_counterexample:
  "created_tasks (get_repeatedly 5 example_manager_A (example_now + 65000000) RedisMissing
      (str ''example.com'') (str ''A'') None)
     = replicate 5 (str ''example.com'', str ''A'', None) \<and>
   length (created_tasks (get_repeatedly 5 example_manager_A (example_now + 65000000)
      RedisMissing (str ''example.com'') (str ''A'') None)) \<noteq> 1"
  using get_repeatedly_tasks [OF key_example_A example_stale_65(3) example_stale_65(2)
      example_stale_65(1), of 5 RedisMissing] example_stale_65(4)
  by simp

subsection \<open>TTL optimisation\<close>







subsection \<open>Facts about the double-precision model\<close>







lemma pow2_nat: "pow2 (int k) = 2 ^ k"
  by (simp add: pow2_def)










subsection \<open>Facts about association lists, sorting and the eviction loop\<close>












subsection \<open>LRU eviction\<close>




subsection \<open>Round trip\<close>









subsection \<open>Invariants of the stored entries\<close>




lemma entry_ok_access [simp]:
  "entry_ok cfg (e\<lparr>access_count := a, last_accessed := l\<rparr>) = entry_ok cfg e"
  by (simp add: entry_ok_def)







lemma example_clamped:
  "set_record (init get_default_config) example_now (str ''example.com'') (str ''A'')
     (StrV (str ''1.2.3.4'')) (Some 999999) None
   = Inr (True, (init get_default_config)
       \<lparr>memory_cache := [(example_key_A, new_entry example_key_A (StrV (str ''1.2.3.4''))
                            example_now (example_now + 86400000000) 86400)],
        sets := 1\<rparr>)"
  by (simp add: set_record_def key_example_A clamp_ttl_def init_def get_default_config_def
      dt_add_seconds_def datetime_max_def example_now_def Let_def)




end
